theory Spec2Isabelle
  imports Main "HOL-Library.AList"
begin

section \<open>Values, errors and observable actions\<close>

text \<open>
  Digests, build-ids and variant-ids are Python \<open>bytes\<close>; workspace paths are Python
  \<open>str\<close>. Both are modelled as character lists.
\<close>

type_synonym bytes = string
type_synonym path = string

text \<open>
  The values that \<open>build.py\<close> stores as result hash, input hashes and build digest are
  dynamically typed: \<open>None\<close>, a \<open>bytes\<close> digest, a \<open>str\<close>, a \<open>datetime\<close> (the time
  stamp that marks a running step) or a list of such values. \<open>isinstance\<close> tests and
  \<open>==\<close> between values of different shapes are the constructor tests and the equality
  of this datatype.
\<close>

datatype pyval = PNone | PBytes bytes | PStr string | PTime nat | PList "pyval list"

text \<open>
  A Python dictionary whose keys are iterated is an association list in insertion
  order. The checkout state maps an SCM directory (or \<open>None\<close>, the key of the
  variant-id of the checkout step) to a digest (or \<open>None\<close> once invalidated).
\<close>

type_synonym checkout_state = "(string option \<times> bytes option) list"

datatype dir_state =
    DirDict checkout_state
  | DirList "pyval list"
  | DirBytes bytes

datatype exn =
    BuildError string string
  | AssertionError string
  | AttributeError
  | KeyError
  | RestartBuildException
  | CancelBuildException
  | MultiBobError "exn list"

text \<open>
  What a step method does to its collaborators (the script harness, the archive, the
  file system, the audit writer), in the order of the calls.
\<close>

datatype action =
    RunShell path string bool
  | GetBuildId path
  | DownloadPackage path bytes
  | UploadPackage path bytes
  | UploadLocalLiveBuildId path bytes bytes
  | EmptyDirectory path
  | Attic path
  | GenerateAudit path

datatype proc_result = OSError string | Exited int

section \<open>Python library functions\<close>

text \<open>\<open>str(n)\<close> for integers: decimal digits, a minus sign for negative numbers.\<close>

definition digit :: "nat \<Rightarrow> char" where
  "digit d = char_of (48 + d)"

fun str_nat :: "nat \<Rightarrow> string" where
  "str_nat n = (if n < 10 then [digit n] else str_nat (n div 10) @ [digit (n mod 10)])"

declare str_nat.simps [simp del]

definition str_int :: "int \<Rightarrow> string" where
  "str_int i = (if i < 0 then CHR ''-'' # str_nat (nat (- i)) else str_nat (nat i))"

text \<open>\<open>str.startswith\<close>\<close>

fun startswith :: "string \<Rightarrow> string \<Rightarrow> bool" where
  "startswith s [] = True"
| "startswith [] (c # cs) = False"
| "startswith (d # ds) (c # cs) = (d = c \<and> startswith ds cs)"

text \<open>\<open>os.path.join\<close> of \<open>posixpath\<close>, for two components.\<close>

definition path_join :: "string \<Rightarrow> string \<Rightarrow> string" where
  "path_join a b =
     (if startswith b ''/'' then b
      else if a = [] \<or> last a = CHR ''/'' then a @ b
      else a @ ''/'' @ b)"



section \<open>Steps\<close>

text \<open>
  What the builder reads from a step. \<open>scmDirectories\<close> is \<open>getScmDirectories()\<close>, the
  directories of all SCMs of a checkout step with their digests; \<open>depPaths\<close> are the
  workspace paths of the valid steps of \<open>getAllDepSteps()\<close>, \<open>argExecPaths\<close> the exec
  paths of the valid arguments, \<open>checkoutPath\<close> the workspace of the checkout step of
  the package when that step is valid, \<open>hasSandbox\<close> is \<open>getSandbox() is not None\<close>.
\<close>

record step =
  workspacePath :: path
  variantId :: bytes
  sandboxVariantId :: bytes
  execPath :: string
  isDeterministic :: bool
  isRelocatable :: bool
  hasSandbox :: bool
  hasLiveBuildId :: bool
  scmDirectories :: "(string \<times> bytes) list"
  depPaths :: "path list"
  argExecPaths :: "string list"
  checkoutPath :: "path option"

section \<open>The persistent store\<close>

record build_state =
  bs_wasRun :: "(path \<rightharpoonup> bytes \<times> bool) option"
  bs_predictedBuidId :: "(path \<times> bytes \<rightharpoonup> bytes) option"

record BobState =
  variantIds :: "path \<rightharpoonup> bytes"
  dirStates :: "path \<rightharpoonup> dir_state"
  inputs :: "path \<rightharpoonup> pyval"
  results :: "path \<rightharpoonup> pyval"
  buildIds :: "bytes \<rightharpoonup> bytes"
  buildState :: build_state

text \<open>
  Modelled from the spec: the class \<open>BobState\<close> (module \<open>bob.state\<close>) is not part of
  the sources at hand. Section 4.1 of the specification lists its operations: get, set
  and delete of variant-id, directory state, input hashes and result hash per workspace
  path, \<open>resetWorkspaceState(path, digest)\<close> "which atomically clears result and input
  hashes and stores the new directory-state", get, set and delete of build-ids and get
  and set of the saved build state. A getter returns \<open>None\<close> for a missing entry.
\<close>

definition getVariantId :: "path \<Rightarrow> BobState \<Rightarrow> bytes option" where
  "getVariantId p s = variantIds s p"

definition setVariantId :: "path \<Rightarrow> bytes \<Rightarrow> BobState \<Rightarrow> BobState" where
  "setVariantId p v s = s\<lparr>variantIds := (variantIds s)(p \<mapsto> v)\<rparr>"

definition getDirectoryState :: "path \<Rightarrow> BobState \<Rightarrow> dir_state option" where
  "getDirectoryState p s = dirStates s p"


definition getInputHashes :: "path \<Rightarrow> BobState \<Rightarrow> pyval" where
  "getInputHashes p s = (case inputs s p of None \<Rightarrow> PNone | Some v \<Rightarrow> v)"

definition setInputHashes :: "path \<Rightarrow> pyval \<Rightarrow> BobState \<Rightarrow> BobState" where
  "setInputHashes p v s = s\<lparr>inputs := (inputs s)(p \<mapsto> v)\<rparr>"

definition delInputHashes :: "path \<Rightarrow> BobState \<Rightarrow> BobState" where
  "delInputHashes p s = s\<lparr>inputs := (inputs s)(p := None)\<rparr>"

definition getResultHash :: "path \<Rightarrow> BobState \<Rightarrow> pyval" where
  "getResultHash p s = (case results s p of None \<Rightarrow> PNone | Some v \<Rightarrow> v)"

definition setResultHash :: "path \<Rightarrow> pyval \<Rightarrow> BobState \<Rightarrow> BobState" where
  "setResultHash p v s = s\<lparr>results := (results s)(p \<mapsto> v)\<rparr>"

definition resetWorkspaceState :: "path \<Rightarrow> dir_state \<Rightarrow> BobState \<Rightarrow> BobState" where
  "resetWorkspaceState p d s =
     s\<lparr>results := (results s)(p := None),
       inputs := (inputs s)(p := None),
       dirStates := (dirStates s)(p \<mapsto> d)\<rparr>"


definition setBuildId :: "bytes \<Rightarrow> bytes \<Rightarrow> BobState \<Rightarrow> BobState" where
  "setBuildId k v s = s\<lparr>buildIds := (buildIds s)(k \<mapsto> v)\<rparr>"


definition getBuildState :: "BobState \<Rightarrow> build_state" where
  "getBuildState s = buildState s"

definition setBuildState :: "build_state \<Rightarrow> BobState \<Rightarrow> BobState" where
  "setBuildState bs s = s\<lparr>buildState := bs\<rparr>"

section \<open>The builder\<close>

text \<open>
  The fields of \<open>LocalBuilder\<close> that the modelled methods read or write, in three
  groups by who writes them: the settings, written by the constructor and the setters
  before \<open>cook\<close> is called; the maps that the step methods keep during a run (this
  record keeps the name of the class); and the fields of the scheduler, which with one
  job only \<open>cook\<close> and the task wrapper of \<open>__createTask\<close> write. The archive is a
  collaborator: \<open>archiveWantDownload\<close> records the last \<open>wantDownload\<close> call.
\<close>

record Settings =
  force :: bool
  buildOnly :: bool
  cleanBuild :: bool
  cleanCheckout :: bool
  keepGoing :: bool
  archiveWantDownload :: bool
  downloadDepth :: nat
  downloadDepthForce :: nat

record LocalBuilder =
  wasRun :: "path \<rightharpoonup> bytes \<times> bool"
  wasSkipped :: "path \<rightharpoonup> bool"
  srcBuildIds :: "path \<times> bytes \<rightharpoonup> bytes \<times> bool"
  buildDistBuildIds :: "path \<rightharpoonup> bytes"

record Scheduler =
  running :: bool
  restart :: bool
  cookTasks :: "path set"
  buildIdTasks :: "path set"
  buildErrors :: "exn list"

text \<open>The constructor \<open>__init__\<close>.\<close>

definition initSettings :: "bool \<Rightarrow> bool \<Rightarrow> bool \<Rightarrow> Settings" where
  "initSettings frc bOnly cBuild =
     \<lparr>force = frc, buildOnly = bOnly, cleanBuild = cBuild, cleanCheckout = False,
      keepGoing = False, archiveWantDownload = False,
      downloadDepth = 0xffff, downloadDepthForce = 0xffff\<rparr>"

definition init :: LocalBuilder where
  "init = \<lparr>wasRun = Map.empty, wasSkipped = Map.empty,
            srcBuildIds = Map.empty, buildDistBuildIds = Map.empty\<rparr>"

definition setDownloadMode :: "string \<Rightarrow> bool \<Rightarrow> Settings \<Rightarrow> exn + Settings" where
  "setDownloadMode mode canDownloadLocal c0 =
     (let c = c0\<lparr>downloadDepth := 0xffff\<rparr> in
      if mode = ''yes'' \<or> mode = ''forced'' then
        (let c = c\<lparr>archiveWantDownload := True\<rparr> in
         if mode = ''forced'' then Inr (c\<lparr>downloadDepth := 0, downloadDepthForce := 0\<rparr>)
         else if canDownloadLocal then Inr (c\<lparr>downloadDepth := 0\<rparr>)
         else Inr c)
      else if mode = ''deps'' \<or> mode = ''forced-deps'' then
        (let c = c\<lparr>archiveWantDownload := True\<rparr> in
         if mode = ''forced-deps'' then Inr (c\<lparr>downloadDepth := 1, downloadDepthForce := 1\<rparr>)
         else if canDownloadLocal then Inr (c\<lparr>downloadDepth := 1\<rparr>)
         else Inr c)
      else if mode = ''forced-fallback'' then
        Inr (c\<lparr>archiveWantDownload := True, downloadDepth := 0, downloadDepthForce := 1\<rparr>)
      else if mode = ''no'' then Inr (c\<lparr>archiveWantDownload := False\<rparr>)
      else Inl (AssertionError ''mode''))"

text \<open>\<open>self.__wasSkipped.get(path, False)\<close>\<close>

definition wasSkippedGet :: "LocalBuilder \<Rightarrow> path \<Rightarrow> bool" where
  "wasSkippedGet b p = (case wasSkipped b p of None \<Rightarrow> False | Some v \<Rightarrow> v)"

definition saveBuildState :: "LocalBuilder \<Rightarrow> BobState \<Rightarrow> BobState" where
  "saveBuildState b s =
     setBuildState
       \<lparr>bs_wasRun = Some (\<lambda>p. case wasRun b p of
            None \<Rightarrow> None
          | Some (vid, isCheckoutStep) \<Rightarrow>
              if \<not> wasSkippedGet b p then Some (vid, isCheckoutStep) else None),
        bs_predictedBuidId = Some (\<lambda>k. case srcBuildIds b k of
            None \<Rightarrow> None
          | Some (bid, predicted) \<Rightarrow> if predicted then Some bid else None)\<rparr> s"

definition loadBuildState :: "BobState \<Rightarrow> LocalBuilder \<Rightarrow> LocalBuilder" where
  "loadBuildState s b =
     (let state = getBuildState s in
      b\<lparr>wasRun := (case bs_wasRun state of None \<Rightarrow> Map.empty | Some m \<Rightarrow> m),
        srcBuildIds := (\<lambda>k.
          case (case bs_predictedBuidId state of None \<Rightarrow> Map.empty | Some m \<Rightarrow> m) k of
            None \<Rightarrow> None
          | Some bid \<Rightarrow> Some (bid, True))\<rparr>)"

definition wasAlreadyRun :: "step \<Rightarrow> bool \<Rightarrow> LocalBuilder \<Rightarrow> bool \<times> LocalBuilder" where
  "wasAlreadyRun stp skippedOk b =
     (let p = workspacePath stp in
      case wasRun b p of
        Some (digest, isCheckoutStep) \<Rightarrow>
          if digest \<noteq> variantId stp then (False, b\<lparr>wasRun := (wasRun b)(p := None)\<rparr>)
          else if \<not> skippedOk \<and> wasSkippedGet b p then (False, b)
          else (True, b)
      | None \<Rightarrow> (False, b))"



text \<open>
  What the round trip through the saved build state is to preserve, in the words of
  the specification: the workspaces marked as run and not flagged as skipped, and the
  src-build-ids flagged as predicted.
\<close>

definition markedRun :: "LocalBuilder \<Rightarrow> (path \<rightharpoonup> bytes \<times> bool)" where
  "markedRun b = (\<lambda>p. if wasSkippedGet b p then None else wasRun b p)"

definition predictedSrcBuildIds :: "LocalBuilder \<Rightarrow> (path \<times> bytes \<rightharpoonup> bytes \<times> bool)" where
  "predictedSrcBuildIds b =
     (\<lambda>k. case srcBuildIds b k of
        None \<Rightarrow> None
      | Some (bid, predicted) \<Rightarrow> if predicted then Some (bid, True) else None)"

text \<open>
  The table of section 4.5.4 of the specification, with 0xffff, the value the
  constructor gives both depths, for the infinite depth.
\<close>

definition modeTable :: "string \<Rightarrow> bool \<Rightarrow> (nat \<times> nat) option" where
  "modeTable mode reachable =
     (if mode = ''no'' then Some (0xffff, 0xffff)
      else if mode = ''yes'' then Some (if reachable then 0 else 0xffff, 0xffff)
      else if mode = ''forced'' then Some (0, 0)
      else if mode = ''deps'' then Some (if reachable then 1 else 0xffff, 0xffff)
      else if mode = ''forced-deps'' then Some (1, 1)
      else if mode = ''forced-fallback'' then Some (0, 1)
      else None)"

section \<open>The environment of a step method\<close>

text \<open>
  What one call of a step method gets from outside the modelled code: from the file
  system (\<open>created\<close> is the flag of \<open>_constructDir\<close>, \<open>pathExists\<close> is
  \<open>os.path.exists\<close>, \<open>hashWorkspace\<close> the digest of the workspace when it is hashed),
  from the library (\<open>normpath\<close> is \<open>os.path.normpath\<close>, \<open>utcnow\<close> the clock), from the
  wrapper process (\<open>proc\<close>), from the recipes (\<open>incrementalVariantId\<close>, the digest that
  \<open>__getIncrementalVariantId\<close> returns; \<open>scmStatus\<close>, the status tag of the SCM of a
  directory; \<open>calcLiveBuildId\<close>) and from the archive (\<open>canUploadLocal\<close>, the answer of
  \<open>downloadPackage\<close>). The calls back into the builder are functions on the maps of
  the builder and the store, of which nothing is assumed: \<open>cookDeps\<close> is
  \<open>self._cook(step.getAllDepSteps(), ...)\<close>, \<open>getStepBuildId\<close> is
  \<open>self._getBuildId(step, depth)\<close> and \<open>generateAudit\<close> is \<open>self._generateAudit\<close> of a
  build or package step (which asks for the build-id of the step).
\<close>

record env =
  created :: bool
  pathExists :: "path \<Rightarrow> bool"
  normpath :: "string \<Rightarrow> string"
  utcnow :: nat
  proc :: proc_result
  hashWorkspace :: bytes
  incrementalVariantId :: bytes
  scmStatus :: "string \<Rightarrow> string"
  calcLiveBuildId :: "bytes option"
  canUploadLocal :: bool
  downloadPackage :: bool
  cookDeps :: "LocalBuilder \<Rightarrow> BobState \<Rightarrow> exn option \<times> LocalBuilder \<times> BobState"
  getStepBuildId :: "LocalBuilder \<Rightarrow> BobState \<Rightarrow> (exn + bytes) \<times> LocalBuilder \<times> BobState"
  generateAudit :: "LocalBuilder \<Rightarrow> BobState \<Rightarrow> exn option \<times> LocalBuilder \<times> BobState"

text \<open>What a step method leaves behind: the exception it raised, if any, its actions,
  the maps of the builder and the store.\<close>

record outcome =
  raised :: "exn option"
  actions :: "action list"
  builder :: LocalBuilder
  state :: BobState

section \<open>The script harness\<close>

definition SIGINT :: int where
  "SIGINT = 2"

text \<open>The path of the wrapper script that \<open>_runShell\<close> writes and reports.\<close>

definition absRunFile :: "env \<Rightarrow> step \<Rightarrow> string \<Rightarrow> string" where
  "absRunFile e stp scriptName =
     (let runFile = path_join ''..'' (scriptName @ ''.sh'');
          absRunFile = normpath e (path_join (workspacePath stp) runFile)
      in path_join ''.'' absRunFile)"

text \<open>
  \<open>_runShell\<close>, from the start of the wrapper process on. The files it writes before
  (the wrapper, the script, the links to the dependencies) are not modelled.
\<close>

definition runShell :: "env \<Rightarrow> step \<Rightarrow> string \<Rightarrow> bool \<Rightarrow> exn + unit" where
  "runShell e stp scriptName cleanWorkspace =
     (case proc e of
        OSError msg \<Rightarrow>
          Inl (BuildError (''Cannot execute build script '' @ absRunFile e stp scriptName
                            @ '': '' @ msg) [])
      | Exited ret \<Rightarrow>
          if ret = - SIGINT then
            Inl (BuildError (''User aborted while running '' @ absRunFile e stp scriptName)
                   ''Run again with '--resume' to skip already built packages.'')
          else if ret \<noteq> 0 then
            Inl (BuildError (''Build script '' @ absRunFile e stp scriptName
                              @ '' returned with '' @ str_int ret)
                   ''You may resume at this point with '--resume' after fixing the error.'')
          else Inr ())"


section \<open>Checkout steps\<close>










section \<open>The scheduler with one job\<close>

text \<open>
  The task wrapper of \<open>__createTask\<close> around the dispatcher, the only task that exists
  with one job: it turns what the dispatcher raised into the flags of the scheduler
  and a cancellation.
\<close>

definition wrapTask :: "Settings \<Rightarrow> exn option \<Rightarrow> Scheduler \<Rightarrow> exn option \<times> Scheduler" where
  "wrapTask c r sc =
     (case r of
        None \<Rightarrow> (None, sc)
      | Some (BuildError m h) \<Rightarrow>
          (Some CancelBuildException,
           (if \<not> keepGoing c then sc\<lparr>running := False\<rparr> else sc)
             \<lparr>buildErrors := buildErrors sc @ [BuildError m h]\<rparr>)
      | Some RestartBuildException \<Rightarrow>
          (Some CancelBuildException,
           if running sc then sc\<lparr>restart := True, running := False\<rparr> else sc)
      | Some CancelBuildException \<Rightarrow> (Some CancelBuildException, sc)
      | Some x \<Rightarrow> (Some CancelBuildException, sc\<lparr>buildErrors := buildErrors sc @ [x]\<rparr>))"

text \<open>The assignments at the head of the body of the \<open>while self.__restart\<close> loop.\<close>

definition resetRun :: "Scheduler \<Rightarrow> Scheduler" where
  "resetRun sc =
     sc\<lparr>running := True, restart := False, cookTasks := {}, buildIdTasks := {},
        buildErrors := []\<rparr>"

text \<open>
  The loop of \<open>cook\<close>. The dispatcher cooks the root steps one after the other; it is
  a parameter that reads the scheduler and works on the maps of the builder and the
  store. The loop may go on for ever, so its result is optional.
\<close>

partial_function (option) cookLoop ::
  "Settings \<Rightarrow> (step list \<Rightarrow> Scheduler \<Rightarrow> LocalBuilder \<Rightarrow> BobState \<Rightarrow> outcome) \<Rightarrow> step list
     \<Rightarrow> Scheduler \<Rightarrow> LocalBuilder \<Rightarrow> BobState
     \<Rightarrow> (exn option \<times> Scheduler \<times> LocalBuilder \<times> BobState) option" where
  "cookLoop c dispatcher steps sc b s =
     (if restart sc then
        (let sc1 = resetRun sc;
             r = dispatcher steps sc1 b s;
             sc2 = snd (wrapTask c (raised r) sc1)
         in if length (buildErrors sc2) > 1 then
              Some (Some (MultiBobError (buildErrors sc2)), sc2, builder r, state r)
            else if buildErrors sc2 \<noteq> [] then
              Some (Some (hd (buildErrors sc2)), sc2, builder r, state r)
            else cookLoop c dispatcher steps sc2 (builder r) (state r))
      else if \<not> running sc then
        Some (Some (BuildError ''Canceled by user!''
                      ''Run again with '--resume' to skip already built packages.''),
              sc, b, s)
      else Some (None, sc, b, s))"

definition cook ::
  "Settings \<Rightarrow> (step list \<Rightarrow> Scheduler \<Rightarrow> LocalBuilder \<Rightarrow> BobState \<Rightarrow> outcome) \<Rightarrow> step list
     \<Rightarrow> Scheduler \<Rightarrow> LocalBuilder \<Rightarrow> BobState
     \<Rightarrow> (exn option \<times> Scheduler \<times> LocalBuilder \<times> BobState) option" where
  "cook c dispatcher steps sc b s = cookLoop c dispatcher steps (sc\<lparr>restart := True\<rparr>) b s"





section \<open>Build steps\<close>

text \<open>
  In the step methods the file operations (\<open>emptyDirectory\<close>, the attic, the audit
  file) are actions that succeed; the wrapper process, the archive and the calls back
  into the builder may fail.
\<close>

text \<open>
  Getting the directory of a build or package step into shape: when the directory was
  created or the stored digest differs, an existing workspace is pruned and the state
  of the workspace is reset to the new digest.
\<close>

definition shapeDirectory :: "env \<Rightarrow> path \<Rightarrow> dir_state \<Rightarrow> BobState \<Rightarrow> action list \<times> BobState" where
  "shapeDirectory e p digest s =
     (if created e \<or> Some digest \<noteq> getDirectoryState p s then
        (if \<not> created e \<and> pathExists e p then [EmptyDirectory p] else [],
         resetWorkspaceState p digest s)
      else ([], s))"


section \<open>Package steps\<close>

text \<open>
  The split of the stored input hashes into \<open>oldInputBuildId\<close>, \<open>oldInputHashes\<close> and
  \<open>oldWasDownloaded\<close>.
\<close>

fun decodeInputHashes :: "pyval \<Rightarrow> pyval \<times> pyval \<times> bool" where
  "decodeInputHashes (PList (x # xs)) = (x, PList xs, False)"
| "decodeInputHashes (PBytes v) = (PBytes v, PNone, True)"
| "decodeInputHashes v = (v, v, False)"

text \<open>A build-id, or \<open>None\<close>, as a stored value.\<close>

definition buildIdValue :: "bytes option \<Rightarrow> pyval" where
  "buildIdValue packageBuildId = (case packageBuildId of None \<Rightarrow> PNone | Some bid \<Rightarrow> PBytes bid)"

text \<open>
  The download part of \<open>_cookPackageStep\<close>. It raises, or it gives \<open>wasDownloaded\<close>,
  \<open>workspaceChanged\<close> and \<open>oldInputHashes\<close>. A build-id that is \<open>None\<close> or empty is
  false as a condition.
\<close>

definition packageDownload ::
  "Settings \<Rightarrow> env \<Rightarrow> step \<Rightarrow> bool \<Rightarrow> nat \<Rightarrow> bytes option \<Rightarrow> pyval \<times> pyval \<times> bool \<Rightarrow> BobState
     \<Rightarrow> (exn \<times> action list \<times> BobState) + (bool \<times> bool \<times> pyval \<times> action list \<times> BobState)" where
  "packageDownload c e packageStep checkoutOnly depth packageBuildId old s =
     (case old of (oldInputBuildId, oldInputHashes, oldWasDownloaded) \<Rightarrow>
      let prettyPackagePath = workspacePath packageStep in
      case packageBuildId of
        None \<Rightarrow> Inr (False, False, oldInputHashes, [], s)
      | Some bid \<Rightarrow>
          if \<not> checkoutOnly \<and> bid \<noteq> [] \<and> depth \<ge> downloadDepth c then
            (let prune = ((oldInputBuildId \<noteq> PNone \<and> oldInputBuildId \<noteq> PBytes bid) \<or> force c);
                 acts = (if prune then [EmptyDirectory prettyPackagePath] else []);
                 s1 = (if prune
                       then resetWorkspaceState prettyPackagePath (DirBytes (variantId packageStep)) s
                       else s);
                 oldInputHashes1 = (if prune then PNone else oldInputHashes)
             in if getResultHash prettyPackagePath s1 = PNone then
                  (if downloadPackage e then
                     Inr (True, True, oldInputHashes1,
                          acts @ [DownloadPackage prettyPackagePath bid],
                          setInputHashes prettyPackagePath (PBytes bid) s1)
                   else if depth \<ge> downloadDepthForce c then
                     Inl (BuildError ''Downloading artifact failed'' [],
                          acts @ [DownloadPackage prettyPackagePath bid], s1)
                   else Inr (False, False, oldInputHashes1,
                             acts @ [DownloadPackage prettyPackagePath bid], s1))
                else if oldWasDownloaded then Inr (True, False, oldInputHashes1, acts, s1)
                else Inr (False, False, oldInputHashes1, acts, s1))
          else Inr (False, False, oldInputHashes, [], s))"

text \<open>
  The build part of \<open>_cookPackageStep\<close>, taken when nothing was downloaded. It
  raises, or it gives \<open>workspaceChanged\<close> and \<open>packageInputHashes\<close>.
\<close>

text \<open>The workspaces of the valid inputs of a package step, the checkout step first.\<close>

definition packageInputs :: "step \<Rightarrow> path list" where
  "packageInputs packageStep =
     (case checkoutPath packageStep of None \<Rightarrow> [] | Some cp \<Rightarrow> [cp]) @ depPaths packageStep"

definition packageBuild ::
  "Settings \<Rightarrow> env \<Rightarrow> step \<Rightarrow> bool \<Rightarrow> bytes option \<Rightarrow> pyval \<Rightarrow> LocalBuilder \<Rightarrow> BobState
     \<Rightarrow> (exn \<times> action list \<times> LocalBuilder \<times> BobState)
         + (bool \<times> pyval list \<times> action list \<times> LocalBuilder \<times> BobState)" where
  "packageBuild c e packageStep checkoutOnly packageBuildId oldInputHashes b0 s0 =
     (case cookDeps e b0 s0 of
        (Some x, b, s) \<Rightarrow> Inl (x, [], b, s)
      | (None, b, s) \<Rightarrow>
          let prettyPackagePath = workspacePath packageStep;
              packageInputHashes = map (\<lambda>i. getResultHash i s) (packageInputs packageStep)
          in if checkoutOnly then Inr (False, packageInputHashes, [], b, s)
             else if \<not> force c \<and> oldInputHashes = PList packageInputHashes then
               Inr (False, packageInputHashes, [], b, s)
             else
               (let s1 = delInputHashes prettyPackagePath s;
                    s2 = setResultHash prettyPackagePath (PTime (utcnow e)) s1;
                    acts = [RunShell prettyPackagePath ''package'' True]
                in case runShell e packageStep ''package'' True of
                     Inl x \<Rightarrow> Inl (x, acts, b, s2)
                   | Inr u \<Rightarrow>
                       (case generateAudit e b s2 of
                          (Some x, b1, s3) \<Rightarrow>
                            Inl (x, acts @ [GenerateAudit prettyPackagePath], b1, s3)
                        | (None, b1, s3) \<Rightarrow>
                            Inr (True, packageInputHashes,
                                 acts @ [GenerateAudit prettyPackagePath]
                                   @ (case packageBuildId of
                                        None \<Rightarrow> []
                                      | Some bid \<Rightarrow>
                                          if bid \<noteq> [] \<and> canUploadLocal e
                                          then [UploadPackage prettyPackagePath bid] else []),
                                 b1, s3))))"

text \<open>
  \<open>_cookPackageStep\<close> from the download on: the download part, the build part if
  nothing was downloaded, and the writes that end the method when the workspace has
  changed.
\<close>

definition downloadOrBuild ::
  "Settings \<Rightarrow> env \<Rightarrow> step \<Rightarrow> bool \<Rightarrow> nat \<Rightarrow> bytes option \<Rightarrow> LocalBuilder \<Rightarrow> BobState \<Rightarrow> outcome" where
  "downloadOrBuild c e packageStep checkoutOnly depth packageBuildId b1 s2 =
     (let prettyPackagePath = workspacePath packageStep;
          packageDigest = variantId packageStep
      in case packageDownload c e packageStep checkoutOnly depth packageBuildId
                (decodeInputHashes (getInputHashes prettyPackagePath s2)) s2 of
           Inl (x, acts2, s3) \<Rightarrow>
             \<lparr>raised = Some x, actions = acts2, builder = b1, state = s3\<rparr>
         | Inr (wasDownloaded, workspaceChanged, oldInputHashes, acts2, s3) \<Rightarrow>
             if wasDownloaded then
               \<lparr>raised = None, actions = acts2, builder = b1,
                state = (if workspaceChanged
                         then setInputHashes prettyPackagePath (buildIdValue packageBuildId)
                                (setVariantId prettyPackagePath packageDigest
                                   (setResultHash prettyPackagePath
                                      (PBytes (hashWorkspace e)) s3))
                         else s3)\<rparr>
             else
               (case packageBuild c e packageStep checkoutOnly packageBuildId
                       oldInputHashes b1 s3 of
                  Inl (x, acts3, b2, s4) \<Rightarrow>
                    \<lparr>raised = Some x, actions = acts2 @ acts3, builder = b2, state = s4\<rparr>
                | Inr (workspaceChanged1, packageInputHashes, acts3, b2, s4) \<Rightarrow>
                    \<lparr>raised = None, actions = acts2 @ acts3, builder = b2,
                     state = (if workspaceChanged1
                              then setInputHashes prettyPackagePath
                                     (PList (buildIdValue packageBuildId # packageInputHashes))
                                     (setVariantId prettyPackagePath (incrementalVariantId e)
                                        (setResultHash prettyPackagePath
                                           (PBytes (hashWorkspace e)) s4))
                              else s4)\<rparr>))"

text \<open>
  \<open>_cookPackageStep\<close>: the directory is brought into shape, the build-id is asked for
  if the package is relocatable or built in a sandbox, then the step is downloaded or
  built.
\<close>

definition cookPackageStep ::
  "Settings \<Rightarrow> env \<Rightarrow> step \<Rightarrow> bool \<Rightarrow> nat \<Rightarrow> LocalBuilder \<Rightarrow> BobState \<Rightarrow> outcome" where
  "cookPackageStep c e packageStep checkoutOnly depth b0 s0 =
     (let prettyPackagePath = workspacePath packageStep;
          packageDigest = variantId packageStep;
          (acts0, s1) = shapeDirectory e prettyPackagePath (DirBytes packageDigest) s0
      in if isRelocatable packageStep \<or> hasSandbox packageStep then
           (case getStepBuildId e b0 s1 of
              (Inl x, b1, s2) \<Rightarrow>
                \<lparr>raised = Some x, actions = acts0 @ [GetBuildId prettyPackagePath],
                 builder = b1, state = s2\<rparr>
            | (Inr bid, b1, s2) \<Rightarrow>
                (let r = downloadOrBuild c e packageStep checkoutOnly depth (Some bid) b1 s2
                 in r\<lparr>actions := acts0 @ [GetBuildId prettyPackagePath] @ actions r\<rparr>))
         else
           (let r = downloadOrBuild c e packageStep checkoutOnly depth None b0 s1
            in r\<lparr>actions := acts0 @ actions r\<rparr>))"


text \<open>
  The \<open>packageBuildId\<close> of a call of \<open>_cookPackageStep\<close>: the build-id of the step
  if the package is relocatable or built in a sandbox, \<open>None\<close> otherwise.
\<close>

definition packageBuildIdOf :: "env \<Rightarrow> step \<Rightarrow> LocalBuilder \<Rightarrow> BobState \<Rightarrow> bytes option" where
  "packageBuildIdOf e packageStep b0 s0 =
     (if isRelocatable packageStep \<or> hasSandbox packageStep then
        (case fst (getStepBuildId e b0
                     (snd (shapeDirectory e (workspacePath packageStep)
                             (DirBytes (variantId packageStep)) s0))) of
           Inl x \<Rightarrow> None
         | Inr bid \<Rightarrow> Some bid)
      else None)"

(*DEFS*)

section \<open>Concrete steps and builders on which the model is evaluated\<close>

definition pkgStep :: step where
  "pkgStep =
     \<lparr>workspacePath = ''dev/dist/app/1/workspace'', variantId = ''v-app-dist'',
      sandboxVariantId = ''sv-app-dist'', execPath = ''/w/dev/dist/app/1/workspace'',
      isDeterministic = True, isRelocatable = True, hasSandbox = False,
      hasLiveBuildId = False,
      scmDirectories = [], depPaths = [''dev/build/app/1/workspace''],
      argExecPaths = [''/w/dev/build/app/1/workspace''],
      checkoutPath = Some ''dev/src/app/1/workspace''\<rparr>"

definition ranBuilder :: LocalBuilder where
  "ranBuilder = init
     \<lparr>wasRun := [''dev/dist/app/1/workspace'' \<mapsto> (''v-app-dist'', False),
                  ''dev/build/app/1/workspace'' \<mapsto> (''v-old'', False),
                  ''dev/src/app/1/workspace'' \<mapsto> (''v-app-src'', True)],
      wasSkipped := [''dev/dist/app/1/workspace'' \<mapsto> False,
                     ''dev/build/app/1/workspace'' \<mapsto> True,
                     ''dev/src/app/1/workspace'' \<mapsto> False],
      srcBuildIds := [(''dev/src/app/1/workspace'', ''v-app-src'') \<mapsto> (''b-live'', True),
                      (''dev/src/lib/1/workspace'', ''v-lib-src'') \<mapsto> (''b-real'', False)]\<rparr>"

definition quietEnv :: env where
  "quietEnv =
     \<lparr>created = False, pathExists = (\<lambda>p. False), normpath = (\<lambda>p. p), utcnow = 1700000000,
      proc = Exited 0, hashWorkspace = ''h-new'', incrementalVariantId = ''iv'',
      scmStatus = (\<lambda>d. ''clean''), calcLiveBuildId = None, canUploadLocal = False,
      downloadPackage = False,
      cookDeps = (\<lambda>b s. (None, b, s)),
      getStepBuildId = (\<lambda>b s. (Inr ''bid-1'', b, s)),
      generateAudit = (\<lambda>b s. (None, b, s))\<rparr>"



definition emptyState :: BobState where
  "emptyState =
     \<lparr>variantIds = Map.empty, dirStates = Map.empty, inputs = Map.empty,
      results = Map.empty, buildIds = Map.empty,
      buildState = \<lparr>bs_wasRun = None, bs_predictedBuidId = None\<rparr>\<rparr>"










definition fallbackSettings :: Settings where
  "fallbackSettings = (initSettings False False False)
     \<lparr>downloadDepth := 0, archiveWantDownload := True, downloadDepthForce := 1\<rparr>"

definition newDirEnv :: env where
  "newDirEnv = quietEnv\<lparr>created := True\<rparr>"







section \<open>Already-run bookkeeping\<close>

text \<open>
  C10. \<open>_wasAlreadyRun\<close> answers true only when the entry of the workspace path records
  the current variant-id of the step (and, when skipped entries are not acceptable,
  the step is not recorded as skipped), and then it leaves the builder as it is. An
  entry with another variant-id is deleted and the answer is false. A step recorded
  as skipped is reported as not run when skipped entries are not acceptable.
\<close>

theorem wasAlreadyRun_current_variant:
  "(fst (wasAlreadyRun stp skippedOk b) \<longrightarrow>
      (\<exists>isCo. wasRun b (workspacePath stp) = Some (variantId stp, isCo))
      \<and> (\<not> skippedOk \<longrightarrow> \<not> wasSkippedGet b (workspacePath stp))
      \<and> snd (wasAlreadyRun stp skippedOk b) = b)
   \<and> (\<forall>vid isCo. wasRun b (workspacePath stp) = Some (vid, isCo) \<and> vid \<noteq> variantId stp \<longrightarrow>
         wasAlreadyRun stp skippedOk b = (False, b\<lparr>wasRun := (wasRun b)(workspacePath stp := None)\<rparr>)
         \<and> wasRun (snd (wasAlreadyRun stp skippedOk b)) (workspacePath stp) = None)
   \<and> (\<not> skippedOk \<and> wasSkippedGet b (workspacePath stp) \<longrightarrow> \<not> fst (wasAlreadyRun stp skippedOk b))
   \<and> (wasRun b (workspacePath stp) = None \<longrightarrow> \<not> fst (wasAlreadyRun stp skippedOk b))"
  by (auto simp: wasAlreadyRun_def Let_def split: option.splits prod.splits if_splits)

theorem wasAlreadyRun_current_variant_witness:
  "fst (wasAlreadyRun pkgStep False ranBuilder)
   \<and> wasRun ranBuilder (workspacePath pkgStep) = Some (variantId pkgStep, False)
   \<and> \<not> wasSkippedGet ranBuilder (workspacePath pkgStep)
   \<and> snd (wasAlreadyRun pkgStep False ranBuilder) = ranBuilder
   \<and> wasRun ranBuilder (workspacePath (pkgStep\<lparr>workspacePath := ''dev/build/app/1/workspace''\<rparr>))
        = Some (''v-old'', False)
   \<and> wasRun (snd (wasAlreadyRun (pkgStep\<lparr>workspacePath := ''dev/build/app/1/workspace''\<rparr>) True ranBuilder))
        ''dev/build/app/1/workspace'' = None"
proof -
  have run: "fst (wasAlreadyRun pkgStep False ranBuilder)"
    by (simp add: wasAlreadyRun_def Let_def pkgStep_def ranBuilder_def init_def wasSkippedGet_def)
  have old: "wasRun ranBuilder (workspacePath (pkgStep\<lparr>workspacePath := ''dev/build/app/1/workspace''\<rparr>))
        = Some (''v-old'', False) \<and> ''v-old'' \<noteq> variantId (pkgStep\<lparr>workspacePath := ''dev/build/app/1/workspace''\<rparr>)"
    by (simp add: pkgStep_def ranBuilder_def init_def)
  from run old
    wasAlreadyRun_current_variant [of pkgStep False ranBuilder]
    wasAlreadyRun_current_variant [of "pkgStep\<lparr>workspacePath := ''dev/build/app/1/workspace''\<rparr>" True ranBuilder]
  show ?thesis
    by (simp add: pkgStep_def ranBuilder_def init_def)
qed

section \<open>Saving and loading the build state\<close>

text \<open>
  C9. Loading the build state that \<open>saveBuildState\<close> stored gives, in any builder, as
  \<open>was_run\<close> map exactly the entries of the saving builder that were not flagged as
  skipped (with their variant-id and checkout flag) and as src-build-id map exactly
  its predicted entries, flagged as predicted. In a new builder, whose skipped map is
  empty, these are again the marked-run workspaces and the predicted src-build-ids:
  the round trip is the identity on this data.
\<close>

theorem saveBuildState_loadBuildState:
  "wasRun (loadBuildState (saveBuildState b s) b0) = markedRun b
   \<and> srcBuildIds (loadBuildState (saveBuildState b s) b0) = predictedSrcBuildIds b
   \<and> markedRun (loadBuildState (saveBuildState b s) init) = markedRun b
   \<and> predictedSrcBuildIds (loadBuildState (saveBuildState b s) init) = predictedSrcBuildIds b"
proof -
  have w: "wasRun (loadBuildState (saveBuildState b s) b0) = markedRun b" for b0
    by (auto simp: loadBuildState_def saveBuildState_def getBuildState_def setBuildState_def
        markedRun_def fun_eq_iff split: option.splits)
  have p: "srcBuildIds (loadBuildState (saveBuildState b s) b0) = predictedSrcBuildIds b" for b0
    by (auto simp: loadBuildState_def saveBuildState_def getBuildState_def setBuildState_def
        predictedSrcBuildIds_def fun_eq_iff split: option.splits)
  have k: "wasSkipped (loadBuildState (saveBuildState b s) init) = Map.empty"
    by (simp add: loadBuildState_def init_def Let_def)
  have m: "markedRun (loadBuildState (saveBuildState b s) init) = markedRun b"
    using w [of init] k by (simp add: markedRun_def wasSkippedGet_def fun_eq_iff)
  have q: "predictedSrcBuildIds (loadBuildState (saveBuildState b s) init) = predictedSrcBuildIds b"
    using p [of init]
    by (auto simp: predictedSrcBuildIds_def fun_eq_iff split: option.splits)
  from w p m q show ?thesis by blast
qed

section \<open>Exit codes of the wrapper\<close>




section \<open>Recovery from a mispredicted build-id\<close>





section \<open>When a checkout runs\<close>









section \<open>Downloads of package steps\<close>

lemma setDownloadMode_table:
  "modeTable mode reachable = Some (d, f) \<Longrightarrow>
     \<exists>c'. setDownloadMode mode reachable (initSettings frc bo cb) = Inr c'
          \<and> downloadDepth c' = d \<and> downloadDepthForce c' = f"
  by (auto simp: modeTable_def setDownloadMode_def initSettings_def Let_def split: if_splits)

lemma packageDownload_Inl:
  assumes "packageDownload c e stp co depth pbid old s = Inl (x, acts, s')"
  shows "x = BuildError ''Downloading artifact failed'' []"
    and "depth \<ge> downloadDepth c" and "depth \<ge> downloadDepthForce c" and "\<not> downloadPackage e"
    and "RunShell p n cl \<notin> set acts"
  using assms
  by (cases old; auto simp: packageDownload_def Let_def split: option.splits if_splits)+

lemma packageDownload_Inr:
  assumes "packageDownload c e stp co depth pbid old s = Inr (wd, ch, oh, acts, s')"
    and "DownloadPackage q bid \<in> set acts"
  shows "depth \<ge> downloadDepth c" and "downloadPackage e \<or> depth < downloadDepthForce c"
  using assms
  by (cases old; auto simp: packageDownload_def Let_def split: option.splits if_splits)+

lemma packageBuild_Inl:
  assumes "packageBuild c e stp co pbid oh b s = Inl (x, acts, b', s')"
  shows "DownloadPackage q bid \<notin> set acts"
  using assms
  by (auto simp: packageBuild_def Let_def split: option.splits if_splits prod.splits sum.splits)

lemma packageBuild_Inr:
  assumes "packageBuild c e stp co pbid oh b s = Inr (ch, hs, acts, b', s')"
  shows "DownloadPackage q bid \<notin> set acts"
  using assms
  by (auto simp: packageBuild_def Let_def split: option.splits if_splits prod.splits sum.splits)

lemma downloadOrBuild_download:
  assumes dl: "DownloadPackage q bid \<in> set (actions (downloadOrBuild c e stp co depth pbid b s))"
  shows "depth \<ge> downloadDepth c
     \<and> (\<not> downloadPackage e \<and> depth \<ge> downloadDepthForce c \<longrightarrow>
          raised (downloadOrBuild c e stp co depth pbid b s) = Some (BuildError ''Downloading artifact failed'' [])
          \<and> (\<forall>p n cl. RunShell p n cl \<notin> set (actions (downloadOrBuild c e stp co depth pbid b s))))"
proof (cases "packageDownload c e stp co depth pbid
                (decodeInputHashes (getInputHashes (workspacePath stp) s)) s")
  case (Inl l)
  obtain x acts2 s3 where l: "l = (x, acts2, s3)" by (cases l)
  note pd = Inl [unfolded l]
  have r: "downloadOrBuild c e stp co depth pbid b s
             = \<lparr>raised = Some x, actions = acts2, builder = b, state = s3\<rparr>"
    by (simp add: downloadOrBuild_def Let_def pd)
  show ?thesis
    unfolding r using packageDownload_Inl [OF pd] by simp
next
  case (Inr r)
  obtain wd ch oh acts2 s3 where r: "r = (wd, ch, oh, acts2, s3)" by (cases r)
  note pd = Inr [unfolded r]
  have acts: "DownloadPackage q bid \<in> set acts2"
  proof (cases wd)
    case True
    then show ?thesis using dl by (simp add: downloadOrBuild_def Let_def pd)
  next
    case False
    show ?thesis
    proof (cases "packageBuild c e stp co pbid oh b s3")
      case (Inl l)
      obtain x acts3 b2 s4 where l: "l = (x, acts3, b2, s4)" by (cases l)
      show ?thesis
        using dl packageBuild_Inl [OF Inl [unfolded l], of q bid]
        by (simp add: downloadOrBuild_def Let_def pd False Inl l)
    next
      case (Inr r2)
      obtain ch2 hs acts3 b2 s4 where r2: "r2 = (ch2, hs, acts3, b2, s4)" by (cases r2)
      show ?thesis
        using dl packageBuild_Inr [OF Inr [unfolded r2], of q bid]
        by (simp add: downloadOrBuild_def Let_def pd False Inr r2)
    qed
  qed
  show ?thesis
    using packageDownload_Inr [OF pd acts] by auto
qed

lemma shapeDirectory_acts:
  "a \<in> set (fst (shapeDirectory e p d s)) \<Longrightarrow> a = EmptyDirectory p"
  by (simp add: shapeDirectory_def split: if_splits)

text \<open>
  The two ways through \<open>_cookPackageStep\<close>: the build-id cannot be had and the method
  raises, or the method goes on to download or build, after actions that are the
  pruning of the directory and the question for the build-id.
\<close>

lemma cookPackageStep_cases:
  obtains (noBuildId) x b1 s2 pre where
      "isRelocatable stp \<or> hasSandbox stp"
      "cookPackageStep c e stp co depth b s
         = \<lparr>raised = Some x, actions = pre, builder = b1, state = s2\<rparr>"
      "\<forall>a \<in> set pre. a = EmptyDirectory (workspacePath stp) \<or> a = GetBuildId (workspacePath stp)"
  | (goesOn) b1 s2 pre where
      "cookPackageStep c e stp co depth b s
         = (downloadOrBuild c e stp co depth (packageBuildIdOf e stp b s) b1 s2)
             \<lparr>actions := pre @ actions (downloadOrBuild c e stp co depth (packageBuildIdOf e stp b s) b1 s2)\<rparr>"
      "\<forall>a \<in> set pre. a = EmptyDirectory (workspacePath stp)
          \<or> (a = GetBuildId (workspacePath stp) \<and> (isRelocatable stp \<or> hasSandbox stp))"
      "packageBuildIdOf e stp b s = None \<longleftrightarrow> \<not> (isRelocatable stp \<or> hasSandbox stp)"
proof -
  obtain acts0 s1 where sd: "shapeDirectory e (workspacePath stp) (DirBytes (variantId stp)) s = (acts0, s1)"
    by (cases "shapeDirectory e (workspacePath stp) (DirBytes (variantId stp)) s")
  have a0: "\<forall>a \<in> set acts0. a = EmptyDirectory (workspacePath stp)"
    using shapeDirectory_acts [of _ e "workspacePath stp" "DirBytes (variantId stp)" s]
    by (simp add: sd)
  show thesis
  proof (cases "isRelocatable stp \<or> hasSandbox stp")
    case False
    have pb: "packageBuildIdOf e stp b s = None"
      using False by (simp add: packageBuildIdOf_def)
    have "cookPackageStep c e stp co depth b s
         = (downloadOrBuild c e stp co depth (packageBuildIdOf e stp b s) b s1)
             \<lparr>actions := acts0 @ actions (downloadOrBuild c e stp co depth (packageBuildIdOf e stp b s) b s1)\<rparr>"
      using False by (simp add: cookPackageStep_def Let_def sd pb)
    moreover have "\<forall>a \<in> set acts0. a = EmptyDirectory (workspacePath stp)
          \<or> (a = GetBuildId (workspacePath stp) \<and> (isRelocatable stp \<or> hasSandbox stp))"
      using a0 by simp
    moreover have "packageBuildIdOf e stp b s = None \<longleftrightarrow> \<not> (isRelocatable stp \<or> hasSandbox stp)"
      using pb False by simp
    ultimately show ?thesis by (rule goesOn)
  next
    case True
    obtain rb b1 s2 where gb: "getStepBuildId e b s1 = (rb, b1, s2)"
      by (cases "getStepBuildId e b s1")
    show ?thesis
    proof (cases rb)
      case (Inl x)
      have "cookPackageStep c e stp co depth b s
         = \<lparr>raised = Some x, actions = acts0 @ [GetBuildId (workspacePath stp)],
            builder = b1, state = s2\<rparr>"
        using True by (simp add: cookPackageStep_def Let_def sd gb Inl)
      moreover have "\<forall>a \<in> set (acts0 @ [GetBuildId (workspacePath stp)]).
          a = EmptyDirectory (workspacePath stp) \<or> a = GetBuildId (workspacePath stp)"
        using a0 by auto
      ultimately show ?thesis using True by (intro noBuildId)
    next
      case (Inr bid)
      have pb: "packageBuildIdOf e stp b s = Some bid"
        using True by (simp add: packageBuildIdOf_def sd gb Inr)
      have "cookPackageStep c e stp co depth b s
         = (downloadOrBuild c e stp co depth (packageBuildIdOf e stp b s) b1 s2)
             \<lparr>actions := (acts0 @ [GetBuildId (workspacePath stp)])
                @ actions (downloadOrBuild c e stp co depth (packageBuildIdOf e stp b s) b1 s2)\<rparr>"
        using True by (simp add: cookPackageStep_def Let_def sd gb Inr pb)
      moreover have "\<forall>a \<in> set (acts0 @ [GetBuildId (workspacePath stp)]).
          a = EmptyDirectory (workspacePath stp)
          \<or> (a = GetBuildId (workspacePath stp) \<and> (isRelocatable stp \<or> hasSandbox stp))"
        using a0 True by auto
      moreover have "packageBuildIdOf e stp b s = None \<longleftrightarrow> \<not> (isRelocatable stp \<or> hasSandbox stp)"
        using pb True by simp
      ultimately show ?thesis by (rule goesOn)
    qed
  qed
qed

lemma cookPackageStep_download:
  assumes dl: "DownloadPackage q bid \<in> set (actions (cookPackageStep c e stp co depth b s))"
  shows "depth \<ge> downloadDepth c
     \<and> (\<not> downloadPackage e \<and> depth \<ge> downloadDepthForce c \<longrightarrow>
          raised (cookPackageStep c e stp co depth b s) = Some (BuildError ''Downloading artifact failed'' [])
          \<and> (\<forall>p n cl. RunShell p n cl \<notin> set (actions (cookPackageStep c e stp co depth b s))))"
proof (cases rule: cookPackageStep_cases [of stp c e co depth b s])
  case (noBuildId x b1 s2 pre)
  then show ?thesis using dl by auto
next
  case (goesOn b1 s2 pre)
  have dl': "DownloadPackage q bid
               \<in> set (actions (downloadOrBuild c e stp co depth (packageBuildIdOf e stp b s) b1 s2))"
    using dl goesOn(2) unfolding goesOn(1) by auto
  show ?thesis
    using downloadOrBuild_download [OF dl'] goesOn(2) unfolding goesOn(1) by auto
qed

text \<open>
  C3. From the builder as constructed, \<open>setDownloadMode\<close> sets the two depths as the
  table of the modes says (the infinite depth is 0xffff, and the archive is reachable
  when \<open>canDownloadLocal\<close> says so). A package step asks the archive for a download
  only when its depth is at least \<open>downloadDepth\<close>; and when a download that was asked
  for fails at a depth of at least \<open>downloadDepthForce\<close>, the step raises the build
  error of the failed download and runs no script.
\<close>

theorem download_depth:
  "(\<forall>d f. modeTable mode reachable = Some (d, f) \<longrightarrow>
      (\<exists>c'. setDownloadMode mode reachable (initSettings frc bo cb) = Inr c'
           \<and> downloadDepth c' = d \<and> downloadDepthForce c' = f))
   \<and> (\<forall>q bid. DownloadPackage q bid \<in> set (actions (cookPackageStep c e stp co depth b s)) \<longrightarrow>
        depth \<ge> downloadDepth c
        \<and> (\<not> downloadPackage e \<and> depth \<ge> downloadDepthForce c \<longrightarrow>
             raised (cookPackageStep c e stp co depth b s)
               = Some (BuildError ''Downloading artifact failed'' [])
             \<and> (\<forall>p n cl. RunShell p n cl \<notin> set (actions (cookPackageStep c e stp co depth b s)))))"
proof -
  have table: "\<exists>c'. setDownloadMode mode reachable (initSettings frc bo cb) = Inr c'
           \<and> downloadDepth c' = d \<and> downloadDepthForce c' = f"
    if "modeTable mode reachable = Some (d, f)" for d f
    using that by (rule setDownloadMode_table)
  from table cookPackageStep_download [of _ _ c e stp co depth b s]
  show ?thesis by blast
qed


theorem download_depth_witness:
  "modeTable ''forced-fallback'' True = Some (0, 1)
   \<and> setDownloadMode ''forced-fallback'' True (initSettings False False False) = Inr fallbackSettings
   \<and> downloadDepth fallbackSettings = 0 \<and> downloadDepthForce fallbackSettings = 1
   \<and> DownloadPackage (workspacePath pkgStep) ''bid-1''
        \<in> set (actions (cookPackageStep fallbackSettings newDirEnv pkgStep False 1 init emptyState))
   \<and> \<not> downloadPackage newDirEnv
   \<and> (1::nat) \<ge> downloadDepthForce fallbackSettings
   \<and> raised (cookPackageStep fallbackSettings newDirEnv pkgStep False 1 init emptyState)
        = Some (BuildError ''Downloading artifact failed'' [])
   \<and> RunShell (workspacePath pkgStep) ''package'' True
        \<notin> set (actions (cookPackageStep fallbackSettings newDirEnv pkgStep False 1 init emptyState))"
proof -
  have t: "modeTable ''forced-fallback'' True = Some (0, 1)"
    by (simp add: modeTable_def)
  have m: "setDownloadMode ''forced-fallback'' True (initSettings False False False)
             = Inr fallbackSettings"
    by (simp add: setDownloadMode_def fallbackSettings_def initSettings_def)
  have d: "downloadDepth fallbackSettings = 0 \<and> downloadDepthForce fallbackSettings = 1"
    by (simp add: fallbackSettings_def)
  have a: "DownloadPackage (workspacePath pkgStep) ''bid-1''
        \<in> set (actions (cookPackageStep fallbackSettings newDirEnv pkgStep False 1 init emptyState))"
    by (simp add: cookPackageStep_def downloadOrBuild_def packageDownload_def Let_def
        fallbackSettings_def initSettings_def newDirEnv_def quietEnv_def pkgStep_def
        emptyState_def resetWorkspaceState_def getInputHashes_def getResultHash_def
        shapeDirectory_def)
  have f: "\<not> downloadPackage newDirEnv"
    by (simp add: newDirEnv_def quietEnv_def)
  from t m d a f
    download_depth [of "''forced-fallback''" True False False False fallbackSettings newDirEnv
      pkgStep False 1 init emptyState]
  show ?thesis by (simp only:) blast
qed


section \<open>What a package step leaves in the store\<close>























section \<open>The store while a script runs\<close>


















end
